theory Spec2Isabelle
  imports Main
begin

section \<open>JavaScript values used by the LDAP service\<close>

text \<open>
  The service of \<^verbatim>\<open>src/services/ldap/index.js\<close> reads string-valued properties that
  may be absent. A property is a \<open>string option\<close>, \<open>None\<close> being \<^verbatim>\<open>undefined\<close>.
  \<open>truthy\<close> is the test JavaScript applies in \<^verbatim>\<open>a || b\<close>, \<^verbatim>\<open>a && b\<close> and
  \<^verbatim>\<open>if (a)\<close>: \<^verbatim>\<open>undefined\<close> and the empty string are falsy. \<open>to_string\<close> is the
  conversion applied by a template literal and by a property key
  (\<^verbatim>\<open>this.clients[config._id]\<close>).
\<close>

fun truthy :: "string option \<Rightarrow> bool" where
  "truthy None = False"
| "truthy (Some s) = (s \<noteq> [])"

fun to_string :: "string option \<Rightarrow> string" where
  "to_string None = ''undefined''"
| "to_string (Some s) = s"

text \<open>
  Values a promise is rejected with, or that are thrown: a plain string
  (\<^verbatim>\<open>reject('Object not found')\<close>), the \<^verbatim>\<open>NotAuthenticated\<close> class of feathers-errors, a
  \<^verbatim>\<open>TypeError\<close> of the JavaScript runtime, and an error object handed over by ldapjs.
\<close>

datatype error = Msg string | NotAuthenticated string | TypeError | LdapError string

text \<open>
  How a call of a method ends: its promise stays pending, is resolved, is rejected, or
  the method throws before it returns a promise. \<open>resolve\<close> and \<open>reject\<close> are the two
  functions handed to a promise executor: only the first call settles the promise.
\<close>

datatype 'a outcome = Pending | Resolved 'a | Rejected error | Thrown error

fun resolve :: "'a \<Rightarrow> 'a outcome \<Rightarrow> 'a outcome" where
  "resolve v Pending = Resolved v"
| "resolve v p = p"

fun reject :: "error \<Rightarrow> 'a outcome \<Rightarrow> 'a outcome" where
  "reject e Pending = Rejected e"
| "reject e p = p"

section \<open>Configuration, ldapjs and the service state\<close>

record ldap_config =
  cfg_id :: "string option"
  url :: "string option"
  rootPath :: "string option"
  searchUser :: "string option"
  searchUserPassword :: "string option"

record ldap_system =
  ldapConfig :: "ldap_config option"

type_synonym ldap_object = "(string \<times> string) list"

record search_options =
  opt_filter :: "string option"
  opt_scope :: string
  opt_attributes :: "string list"

text \<open>
  A client object of ldapjs is identified by the number of clients created before it.
  The world records every call the service makes on ldapjs: the URL of each
  \<^verbatim>\<open>ldap.createClient\<close>, each \<^verbatim>\<open>client.bind\<close> and each \<^verbatim>\<open>client.search\<close>, oldest first.
\<close>

record bind_call =
  bind_client :: nat
  bind_name :: string
  bind_credentials :: "string option"

record search_call =
  search_client :: nat
  search_base :: string
  search_opts :: search_options

record world =
  created :: "string option list"
  binds :: "bind_call list"
  searches :: "search_call list"

definition record_create :: "world \<Rightarrow> string option \<Rightarrow> world" where
  "record_create w u = w\<lparr>created := created w @ [u]\<rparr>"

definition record_bind :: "world \<Rightarrow> bind_call \<Rightarrow> world" where
  "record_bind w call = w\<lparr>binds := binds w @ [call]\<rparr>"

definition record_search :: "world \<Rightarrow> search_call \<Rightarrow> world" where
  "record_search w call = w\<lparr>searches := searches w @ [call]\<rparr>"

text \<open>
  ldapjs and the directory server are not part of the repository; their answers are
  parameters. \<open>createClient\<close> gives the exception \<^verbatim>\<open>ldap.createClient\<close> throws, if any.
  A bind throws, calls back with an error, calls back without one, or never calls back.
  A search throws, calls back with an error, or calls back with a response object that
  then emits events. \<open>connected\<close> is the \<^verbatim>\<open>connected\<close> property of a client.
\<close>

datatype bind_reply = BindOk | BindErr error | BindThrows error | BindSilent

datatype event = SearchEntry ldap_object | ErrorEvent error | End int

datatype search_reply = SearchThrows error | SearchErr error | SearchRes "event list"

record ldap_env =
  createClient :: "world \<Rightarrow> string option \<Rightarrow> error option"
  bind_reply_of :: "world \<Rightarrow> bind_call \<Rightarrow> bind_reply"
  search_reply_of :: "world \<Rightarrow> search_call \<Rightarrow> search_reply"
  connected :: "world \<Rightarrow> nat \<Rightarrow> bool"

text \<open>
  \<^verbatim>\<open>this.clients\<close>: an object used as a dictionary from the string form of a
  configuration's \<^verbatim>\<open>_id\<close> to a client.
\<close>

record ldap_service =
  clients :: "string \<rightharpoonup> nat"

section \<open>The service\<close>

text \<open>
  Isabelle names do not start with an underscore: \<^verbatim>\<open>_addClient\<close>, \<^verbatim>\<open>_getClient\<close>,
  \<^verbatim>\<open>_connect\<close>, \<^verbatim>\<open>_disconnect\<close> and \<^verbatim>\<open>_teamToGroup\<close> are \<open>addClient\<close>, \<open>getClient\<close>,
  \<open>connect\<close>, \<open>disconnect\<close> and \<open>teamToGroup\<close>. A method takes the service state and the
  world and returns how its promise ends, with both as they are once every callback the
  call has started has run.
\<close>

definition addClient :: "ldap_service \<Rightarrow> ldap_config \<Rightarrow> nat \<Rightarrow> ldap_service" where
  "addClient svc config client =
     svc\<lparr>clients := (clients svc)(to_string (cfg_id config) \<mapsto> client)\<rparr>"

definition default_username :: "ldap_config \<Rightarrow> string" where
  "default_username config =
     ''uid='' @ to_string (searchUser config) @ '',cn=users,'' @ to_string (rootPath config)"

text \<open>
  Lines 52 and 53 of \<^verbatim>\<open>_connect\<close>: \<^verbatim>\<open>username = username || `uid=...`\<close> and
  \<^verbatim>\<open>password = password || config.searchUserPassword\<close>. The right operand is evaluated only
  when the left one is falsy, and reading a property of a missing config throws.
\<close>

definition username_or_default :: "ldap_config option \<Rightarrow> string option \<Rightarrow> error + string" where
  "username_or_default config username =
     (if truthy username then Inr (to_string username)
      else case config of None \<Rightarrow> Inl TypeError | Some c \<Rightarrow> Inr (default_username c))"

definition password_or_default ::
  "ldap_config option \<Rightarrow> string option \<Rightarrow> error + string option" where
  "password_or_default config password =
     (if truthy password then Inr password
      else case config of None \<Rightarrow> Inl TypeError | Some c \<Rightarrow> Inr (searchUserPassword c))"

text \<open>
  The executor of the promise of \<^verbatim>\<open>_connect\<close> (lines 55 to 70). The guard rejects and
  does not return, so the statements after it still run; an exception inside an executor
  is a call of \<open>reject\<close>.
\<close>

definition connect_executor ::
  "ldap_env \<Rightarrow> world \<Rightarrow> ldap_config option \<Rightarrow> string \<Rightarrow> string option \<Rightarrow> nat outcome \<times> world" where
  "connect_executor env w config username password =
     (let p = (if \<not> (case config of None \<Rightarrow> False | Some c \<Rightarrow> truthy (url c))
               then reject (Msg ''Invalid URL in config object.'') Pending else Pending)
      in case config of
           None \<Rightarrow> (reject TypeError p, w)
         | Some c \<Rightarrow>
             (case createClient env w (url c) of
                Some e \<Rightarrow> (reject e p, w)
              | None \<Rightarrow>
                  (let client = length (created w);
                       w1 = record_create w (url c);
                       call = \<lparr>bind_client = client, bind_name = username,
                               bind_credentials = password\<rparr>;
                       w2 = record_bind w1 call
                   in case bind_reply_of env w1 call of
                        BindThrows e \<Rightarrow> (reject e p, w2)
                      | BindErr e \<Rightarrow> (reject (NotAuthenticated ''Wrong credentials'') p, w2)
                      | BindOk \<Rightarrow> (resolve client p, w2)
                      | BindSilent \<Rightarrow> (p, w2))))"

definition connect ::
  "ldap_env \<Rightarrow> world \<Rightarrow> ldap_config option \<Rightarrow> string option \<Rightarrow> string option
     \<Rightarrow> nat outcome \<times> world" where
  "connect env w config username password =
     (case username_or_default config username of
        Inl e \<Rightarrow> (Thrown e, w)
      | Inr username' \<Rightarrow>
          (case password_or_default config password of
             Inl e \<Rightarrow> (Thrown e, w)
           | Inr password' \<Rightarrow> connect_executor env w config username' password'))"

text \<open>
  \<^verbatim>\<open>_getClient\<close> (lines 30 to 40). \<^verbatim>\<open>config._id\<close> is read first, which throws when the
  config is missing. A rejected or pending \<^verbatim>\<open>_connect\<close> skips the \<^verbatim>\<open>then\<close> callback.
\<close>

definition getClient ::
  "ldap_env \<Rightarrow> ldap_service \<Rightarrow> world \<Rightarrow> ldap_config option
     \<Rightarrow> nat outcome \<times> ldap_service \<times> world" where
  "getClient env svc w config =
     (case config of
        None \<Rightarrow> (Thrown TypeError, svc, w)
      | Some c \<Rightarrow>
          (case clients svc (to_string (cfg_id c)) of
             Some client \<Rightarrow>
               if connected env w client then (Resolved client, svc, w)
               else (case connect env w config None None of
                       (Resolved client', w') \<Rightarrow> (Resolved client', addClient svc c client', w')
                     | (r, w') \<Rightarrow> (r, svc, w'))
           | None \<Rightarrow>
               (case connect env w config None None of
                  (Resolved client', w') \<Rightarrow> (Resolved client', addClient svc c client', w')
                | (r, w') \<Rightarrow> (r, svc, w'))))"

text \<open>
  The handlers \<^verbatim>\<open>searchCollection\<close> registers on the response (lines 134 to 143), acting
  on the array \<^verbatim>\<open>objects\<close> and on the promise. The \<^verbatim>\<open>end\<close> handler calls \<open>reject\<close>
  after \<open>resolve\<close>, since the \<^verbatim>\<open>if\<close> does not return. The promise is resolved with the
  array as it is when \<open>resolve\<close> is called.
\<close>

fun on_event ::
  "ldap_object list \<times> ldap_object list outcome \<Rightarrow> event
     \<Rightarrow> ldap_object list \<times> ldap_object list outcome" where
  "on_event (objects, p) (SearchEntry obj) = (objects @ [obj], p)"
| "on_event (objects, p) (ErrorEvent e) = (objects, reject e p)"
| "on_event (objects, p) (End status) =
     (objects, reject (Msg ''LDAP result code != 0'')
                 (if status = 0 then resolve objects p else p))"

definition search_promise :: "search_reply \<Rightarrow> ldap_object list outcome" where
  "search_promise reply =
     (case reply of
        SearchThrows e \<Rightarrow> reject e Pending
      | SearchErr e \<Rightarrow> reject e Pending
      | SearchRes events \<Rightarrow> snd (foldl on_event ([], Pending) events))"

definition searchCollection ::
  "ldap_env \<Rightarrow> ldap_service \<Rightarrow> world \<Rightarrow> ldap_config option \<Rightarrow> string \<Rightarrow> search_options
     \<Rightarrow> ldap_object list outcome \<times> ldap_service \<times> world" where
  "searchCollection env svc w config searchString options =
     (case getClient env svc w config of
        (Resolved client, svc', w') \<Rightarrow>
          (let call = \<lparr>search_client = client, search_base = searchString,
                       search_opts = options\<rparr>
           in (search_promise (search_reply_of env w' call), svc', record_search w' call))
      | (Pending, svc', w') \<Rightarrow> (Pending, svc', w')
      | (Rejected e, svc', w') \<Rightarrow> (Rejected e, svc', w')
      | (Thrown e, svc', w') \<Rightarrow> (Thrown e, svc', w'))"

text \<open>
  \<^verbatim>\<open>searchObject\<close> (lines 157 to 165): the \<^verbatim>\<open>then\<close> callback runs only when
  \<^verbatim>\<open>searchCollection\<close> is resolved.
\<close>

definition searchObject ::
  "ldap_env \<Rightarrow> ldap_service \<Rightarrow> world \<Rightarrow> ldap_config option \<Rightarrow> string \<Rightarrow> search_options
     \<Rightarrow> ldap_object outcome \<times> ldap_service \<times> world" where
  "searchObject env svc w config searchString options =
     (case searchCollection env svc w config searchString options of
        (Resolved objects, svc', w') \<Rightarrow>
          (if length objects > 0 then Resolved (objects ! 0)
           else Rejected (Msg ''Object not found''), svc', w')
      | (Pending, svc', w') \<Rightarrow> (Pending, svc', w')
      | (Rejected e, svc', w') \<Rightarrow> (Rejected e, svc', w')
      | (Thrown e, svc', w') \<Rightarrow> (Thrown e, svc', w'))"

text \<open>
  \<^verbatim>\<open>authenticate\<close> (lines 104 to 116). The client \<^verbatim>\<open>_connect\<close> resolves with is not
  bound to a name in the \<^verbatim>\<open>then\<close> callback. An exception thrown inside a \<^verbatim>\<open>then\<close>
  callback rejects the promise \<^verbatim>\<open>then\<close> returned.
\<close>

definition authenticate ::
  "ldap_env \<Rightarrow> ldap_service \<Rightarrow> world \<Rightarrow> ldap_system \<Rightarrow> string option \<Rightarrow> string option
     \<Rightarrow> ldap_object outcome \<times> ldap_service \<times> world" where
  "authenticate env svc w system qualifiedUsername password =
     (let config = ldapConfig system
      in case connect env w config qualifiedUsername password of
           (Resolved client, w1) \<Rightarrow>
             (let options = \<lparr>opt_filter = None, opt_scope = ''sub'', opt_attributes = []\<rparr>;
                  searchString = to_string qualifiedUsername
              in case searchObject env svc w1 config searchString options of
                   (Thrown e, svc', w') \<Rightarrow> (Rejected e, svc', w')
                 | (r, svc', w') \<Rightarrow> (r, svc', w'))
         | (Pending, w1) \<Rightarrow> (Pending, svc, w1)
         | (Rejected e, w1) \<Rightarrow> (Rejected e, svc, w1)
         | (Thrown e, w1) \<Rightarrow> (Thrown e, svc, w1))"

text \<open>
  \<^verbatim>\<open>_disconnect\<close> (lines 80 to 92). The guard rejects and does not return.
  \<^verbatim>\<open>this._getClient(config)\<close> then either throws, or returns a promise: every
  \<^verbatim>\<open>return\<close> of \<^verbatim>\<open>_getClient\<close> is \<^verbatim>\<open>Promise.resolve(...)\<close> or the result of \<^verbatim>\<open>then\<close>. A
  promise has no property \<^verbatim>\<open>unbind\<close>, so calling it throws a \<^verbatim>\<open>TypeError\<close> inside the
  executor, and the callback with \<^verbatim>\<open>resolve()\<close> is never passed to anything. What
  \<^verbatim>\<open>_getClient\<close> started still runs.
\<close>

definition disconnect ::
  "ldap_env \<Rightarrow> ldap_service \<Rightarrow> world \<Rightarrow> ldap_config option
     \<Rightarrow> unit outcome \<times> ldap_service \<times> world" where
  "disconnect env svc w config =
     (let p = (if \<not> (case config of None \<Rightarrow> False | Some c \<Rightarrow> truthy (cfg_id c))
               then reject (Msg ''Invalid config object'') Pending else Pending)
      in case getClient env svc w config of
           (Thrown e, svc', w') \<Rightarrow> (reject e p, svc', w')
         | (r, svc', w') \<Rightarrow> (reject TypeError p, svc', w'))"

text \<open>
  The strategies of \<^verbatim>\<open>./strategies\<close> are not among the sources: \<^verbatim>\<open>getLDAPStrategy\<close> is
  a parameter, and a strategy is the record of the five methods the service calls.
\<close>

record ldap_group =
  group_name :: string
  group_description :: "string option"

record team =
  team_id :: "string option"
  team_name :: "string option"

record ('school, 'user, 'res) ldap_strategy =
  getSchoolsQuery :: "string \<times> search_options"
  getUsersQuery :: "'school \<Rightarrow> string \<times> search_options"
  getClassesQuery :: "'school \<Rightarrow> string \<times> search_options"
  addUserToGroup :: "'user \<Rightarrow> ldap_group \<Rightarrow> 'res"
  removeUserFromGroup :: "'user \<Rightarrow> ldap_group \<Rightarrow> 'res"

definition getSchools ::
  "(ldap_config option \<Rightarrow> ('school, 'user, 'res) ldap_strategy) \<Rightarrow> ldap_env \<Rightarrow> ldap_service
     \<Rightarrow> world \<Rightarrow> ldap_config option \<Rightarrow> ldap_object list outcome \<times> ldap_service \<times> world" where
  "getSchools getLDAPStrategy env svc w config =
     (case getSchoolsQuery (getLDAPStrategy config) of
        (searchString, options) \<Rightarrow> searchCollection env svc w config searchString options)"

definition getUsers ::
  "(ldap_config option \<Rightarrow> ('school, 'user, 'res) ldap_strategy) \<Rightarrow> ldap_env \<Rightarrow> ldap_service
     \<Rightarrow> world \<Rightarrow> ldap_config option \<Rightarrow> 'school
     \<Rightarrow> ldap_object list outcome \<times> ldap_service \<times> world" where
  "getUsers getLDAPStrategy env svc w config school =
     (case getUsersQuery (getLDAPStrategy config) school of
        (searchString, options) \<Rightarrow> searchCollection env svc w config searchString options)"

definition getClasses ::
  "(ldap_config option \<Rightarrow> ('school, 'user, 'res) ldap_strategy) \<Rightarrow> ldap_env \<Rightarrow> ldap_service
     \<Rightarrow> world \<Rightarrow> ldap_config option \<Rightarrow> 'school
     \<Rightarrow> ldap_object list outcome \<times> ldap_service \<times> world" where
  "getClasses getLDAPStrategy env svc w config school =
     (case getClassesQuery (getLDAPStrategy config) school of
        (searchString, options) \<Rightarrow> searchCollection env svc w config searchString options)"

definition teamToGroup :: "team \<Rightarrow> ldap_group" where
  "teamToGroup t =
     \<lparr>group_name = ''schulcloud-'' @ to_string (team_id t), group_description = team_name t\<rparr>"

definition addUserToTeam ::
  "(ldap_config option \<Rightarrow> ('school, 'user, 'res) ldap_strategy) \<Rightarrow> ldap_config option
     \<Rightarrow> 'user \<Rightarrow> team \<Rightarrow> 'res" where
  "addUserToTeam getLDAPStrategy config user t =
     (let group = teamToGroup t in addUserToGroup (getLDAPStrategy config) user group)"

definition removeUserFromTeam ::
  "(ldap_config option \<Rightarrow> ('school, 'user, 'res) ldap_strategy) \<Rightarrow> ldap_config option
     \<Rightarrow> 'user \<Rightarrow> team \<Rightarrow> 'res" where
  "removeUserFromTeam getLDAPStrategy config user t =
     (let group = teamToGroup t in removeUserFromGroup (getLDAPStrategy config) user group)"

text \<open>
  Every client in the registry is one that \<^verbatim>\<open>ldap.createClient\<close> has returned. The
  registry of a new service is empty and \<open>getClient\<close> stores only clients it has created.
\<close>

definition cache_wf :: "ldap_service \<Rightarrow> world \<Rightarrow> bool" where
  "cache_wf svc w = (\<forall>client \<in> ran (clients svc). client < length (created w))"

text \<open>
  What a call may do to the registry: leave it as it is, or store one client under the
  key of the call's configuration.
\<close>

definition registry_step :: "ldap_service \<Rightarrow> ldap_config option \<Rightarrow> ldap_service \<Rightarrow> bool" where
  "registry_step svc config svc' =
     (svc' = svc \<or> (\<exists>c client. config = Some c \<and> svc' = addClient svc c client))"

section \<open>Sample inputs\<close>

text \<open>
  The configuration of the specification's example; an empty registry and a world in
  which nothing has happened; the registry and the world after a first connection for
  that configuration; a server that accepts every bind and answers every search with
  three entries and end status 0; servers that differ from it in one answer.
\<close>

definition s1_config :: ldap_config where
  "s1_config = \<lparr>cfg_id = Some ''s1'', url = Some ''ldap://host'', rootPath = Some ''dc=school'',
                 searchUser = Some ''admin'', searchUserPassword = Some ''p''\<rparr>"

definition s1_system :: ldap_system where
  "s1_system = \<lparr>ldapConfig = Some s1_config\<rparr>"

definition no_clients :: ldap_service where
  "no_clients = \<lparr>clients = Map.empty\<rparr>"

definition world0 :: world where
  "world0 = \<lparr>created = [], binds = [], searches = []\<rparr>"

definition s1_service_bind :: bind_call where
  "s1_service_bind = \<lparr>bind_client = 0, bind_name = ''uid=admin,cn=users,dc=school'',
                       bind_credentials = Some ''p''\<rparr>"

definition s1_cached :: ldap_service where
  "s1_cached = \<lparr>clients = [''s1'' \<mapsto> 0]\<rparr>"

definition s1_world :: world where
  "s1_world = \<lparr>created = [Some ''ldap://host''], binds = [s1_service_bind], searches = []\<rparr>"

definition sub_options :: search_options where
  "sub_options = \<lparr>opt_filter = None, opt_scope = ''sub'', opt_attributes = []\<rparr>"

definition three_entries :: "ldap_object list" where
  "three_entries = [[(''uid'', ''a'')], [(''uid'', ''b'')], [(''uid'', ''c'')]]"

definition reply_three :: "world \<Rightarrow> search_call \<Rightarrow> search_reply" where
  "reply_three w call = SearchRes (map SearchEntry three_entries @ [End 0])"

definition env_ok :: ldap_env where
  "env_ok = \<lparr>createClient = (\<lambda>w u. None), bind_reply_of = (\<lambda>w call. BindOk),
             search_reply_of = reply_three, connected = (\<lambda>w client. True)\<rparr>"

definition env_wrong_credentials :: ldap_env where
  "env_wrong_credentials =
     env_ok\<lparr>bind_reply_of := (\<lambda>w call. BindErr (LdapError ''InvalidCredentialsError''))\<rparr>"

definition bob :: string where
  "bob = ''uid=bob,cn=users,dc=school''"

text \<open>
  The registry and the world after bob has authenticated with the password
  \<open>secret\<close> against \<open>env_ok\<close>, starting from \<open>no_clients\<close> and \<open>world0\<close>; and the world
  after the bind of that call has been refused.
\<close>

definition bob_bind :: bind_call where
  "bob_bind = \<lparr>bind_client = 0, bind_name = bob, bind_credentials = Some ''secret''\<rparr>"

definition bob_search :: search_call where
  "bob_search = \<lparr>search_client = 1, search_base = bob, search_opts = sub_options\<rparr>"

definition bob_cached :: ldap_service where
  "bob_cached = \<lparr>clients = [''s1'' \<mapsto> 1]\<rparr>"

definition bob_world :: world where
  "bob_world = \<lparr>created = [Some ''ldap://host'', Some ''ldap://host''],
                 binds = [bob_bind, s1_service_bind\<lparr>bind_client := 1\<rparr>],
                 searches = [bob_search]\<rparr>"

definition bob_refused_world :: world where
  "bob_refused_world = \<lparr>created = [Some ''ldap://host''], binds = [bob_bind], searches = []\<rparr>"

text \<open>
  The world after bob has authenticated with the empty password against \<open>env_ok\<close>.
\<close>

definition bob_empty_password_world :: world where
  "bob_empty_password_world =
     bob_world\<lparr>binds := [bob_bind\<lparr>bind_credentials := Some ''p''\<rparr>,
                          s1_service_bind\<lparr>bind_client := 1\<rparr>]\<rparr>"

lemmas sample_defs = s1_config_def s1_system_def no_clients_def world0_def s1_service_bind_def
  s1_cached_def s1_world_def sub_options_def three_entries_def reply_three_def env_ok_def
  env_wrong_credentials_def bob_def bob_bind_def bob_search_def bob_cached_def bob_world_def
  bob_refused_world_def bob_empty_password_world_def

lemmas world_defs = record_create_def record_bind_def record_search_def

section \<open>Connecting\<close>

lemma connect_executor_not_Thrown: "fst (connect_executor env w config name cred) \<noteq> Thrown e"
  by (auto simp: connect_executor_def Let_def split: option.splits bind_reply.splits)

lemma connect_Some_not_Thrown: "fst (connect env w (Some c) u p) \<noteq> Thrown e"
  by (simp add: connect_def username_or_default_def password_or_default_def
      connect_executor_not_Thrown)

lemma connect_defaults:
  assumes "\<not> truthy u" and "\<not> truthy p"
  shows "connect env w (Some c) u p =
           connect_executor env w (Some c) (default_username c) (searchUserPassword c)"
  using assms by (simp add: connect_def username_or_default_def password_or_default_def)


lemma connect_executor_Resolved:
  assumes "connect_executor env w config name cred = (Resolved client, w')"
  shows "\<exists>c. config = Some c \<and> truthy (url c) \<and> createClient env w (url c) = None
           \<and> client = length (created w)
           \<and> w' = record_bind (record_create w (url c))
                    \<lparr>bind_client = length (created w), bind_name = name, bind_credentials = cred\<rparr>"
  using assms
  by (auto simp: connect_executor_def Let_def
      split: option.splits bind_reply.splits if_splits)

lemma connect_Resolved:
  assumes "connect env w config u p = (Resolved client, w')"
  shows "\<exists>c name cred. config = Some c \<and> truthy (url c)
           \<and> username_or_default config u = Inr name \<and> password_or_default config p = Inr cred
           \<and> client = length (created w)
           \<and> w' = record_bind (record_create w (url c))
                    \<lparr>bind_client = length (created w), bind_name = name, bind_credentials = cred\<rparr>"
proof -
  from assms obtain name cred where n: "username_or_default config u = Inr name"
    and c: "password_or_default config p = Inr cred"
    and ex: "connect_executor env w config name cred = (Resolved client, w')"
    by (auto simp: connect_def split: sum.splits)
  from connect_executor_Resolved [OF ex] n c show ?thesis by auto
qed

lemma connect_executor_binds:
  "binds (snd (connect_executor env w (Some c) name cred)) =
     binds w @ (case createClient env w (url c) of
                  Some e \<Rightarrow> []
                | None \<Rightarrow> [\<lparr>bind_client = length (created w), bind_name = name,
                            bind_credentials = cred\<rparr>])"
  by (auto simp: connect_executor_def Let_def world_defs split: option.splits bind_reply.splits)

section \<open>The registry\<close>

lemma getClient_cached:
  assumes "clients svc (to_string (cfg_id c)) = Some client" and "connected env w client"
  shows "getClient env svc w (Some c) = (Resolved client, svc, w)"
  using assms by (simp add: getClient_def)

lemma getClient_connects:
  assumes "\<forall>client. clients svc (to_string (cfg_id c)) = Some client \<longrightarrow> \<not> connected env w client"
  shows "getClient env svc w (Some c) =
           (case connect env w (Some c) None None of
              (Resolved client', w') \<Rightarrow> (Resolved client', addClient svc c client', w')
            | (r, w') \<Rightarrow> (r, svc, w'))"
  using assms by (simp add: getClient_def split: option.splits)

lemma getClient_Resolved:
  assumes "getClient env svc w config = (Resolved client, svc', w')"
  shows "\<exists>c. config = Some c \<and>
           (clients svc (to_string (cfg_id c)) = Some client \<and> connected env w client
              \<and> svc' = svc \<and> w' = w
            \<or> connect env w config None None = (Resolved client, w')
              \<and> svc' = addClient svc c client)"
  using assms
  by (auto simp: getClient_def split: option.splits if_splits prod.splits outcome.splits)

lemma getClient_Some_not_Thrown: "fst (getClient env svc w (Some c)) \<noteq> Thrown e"
  using connect_Some_not_Thrown [of env w c None None e]
  by (auto simp: getClient_def split: option.splits prod.splits outcome.splits)

lemma getClient_registry_step:
  "registry_step svc config (fst (snd (getClient env svc w config)))"
  by (auto simp: registry_step_def getClient_def
      split: option.splits prod.splits outcome.splits)

lemma searchCollection_registry:
  "fst (snd (searchCollection env svc w config s opts)) = fst (snd (getClient env svc w config))"
  by (auto simp: searchCollection_def Let_def split: prod.splits outcome.splits)

lemma searchObject_registry:
  "fst (snd (searchObject env svc w config s opts)) = fst (snd (getClient env svc w config))"
  using searchCollection_registry [of env svc w config s opts]
  by (auto simp: searchObject_def split: prod.splits outcome.splits)

lemma reject_not_Thrown: "p \<noteq> Thrown e \<Longrightarrow> reject e' p \<noteq> Thrown e"
  by (cases p) simp_all

lemma resolve_not_Thrown: "p \<noteq> Thrown e \<Longrightarrow> resolve v p \<noteq> Thrown e"
  by (cases p) simp_all

lemma on_event_not_Thrown: "snd st \<noteq> Thrown e \<Longrightarrow> snd (on_event st ev) \<noteq> Thrown e"
  by (cases st; cases ev) (simp_all add: reject_not_Thrown resolve_not_Thrown)

lemma foldl_on_event_not_Thrown:
  "snd st \<noteq> Thrown e \<Longrightarrow> snd (foldl on_event st evs) \<noteq> Thrown e"
  by (induction evs arbitrary: st) (simp_all add: on_event_not_Thrown)

lemma search_promise_not_Thrown: "search_promise reply \<noteq> Thrown e"
  by (cases reply) (simp_all add: search_promise_def foldl_on_event_not_Thrown)

lemma searchCollection_Some_not_Thrown:
  "fst (searchCollection env svc w (Some c) s opts) \<noteq> Thrown e"
  using getClient_Some_not_Thrown [of env svc w c e]
  by (auto simp: searchCollection_def Let_def search_promise_not_Thrown
      split: prod.splits outcome.splits)

lemma searchObject_Some_not_Thrown:
  "fst (searchObject env svc w (Some c) s opts) \<noteq> Thrown e"
  using searchCollection_Some_not_Thrown [of env svc w c s opts e]
  by (auto simp: searchObject_def split: prod.splits outcome.splits)


lemma searchCollection_Resolved:
  assumes "searchCollection env svc w config s opts = (Resolved objs, svc', w')"
  shows "\<exists>client w1. getClient env svc w config = (Resolved client, svc', w1)
           \<and> w' = record_search w1
                    \<lparr>search_client = client, search_base = s, search_opts = opts\<rparr>"
  using assms
  by (auto simp: searchCollection_def Let_def split: prod.splits outcome.splits)

lemma searchObject_Resolved:
  assumes "searchObject env svc w config s opts = (Resolved obj, svc', w')"
  shows "\<exists>objs. searchCollection env svc w config s opts = (Resolved objs, svc', w')"
  using assms
  by (auto simp: searchObject_def split: prod.splits outcome.splits if_splits)

section \<open>Authentication\<close>

lemma authenticate_bind_ok:
  assumes "connect env w (Some c) u p = (Resolved client, w1)"
    and "ldapConfig system = Some c"
  shows "authenticate env svc w system u p =
           searchObject env svc w1 (Some c) (to_string u)
             \<lparr>opt_filter = None, opt_scope = ''sub'', opt_attributes = []\<rparr>"
proof -
  obtain r svc' w' where so: "searchObject env svc w1 (Some c) (to_string u)
      \<lparr>opt_filter = None, opt_scope = ''sub'', opt_attributes = []\<rparr> = (r, svc', w')"
    by (metis prod_cases3)
  with searchObject_Some_not_Thrown [of env svc w1 c "to_string u" _ ] have "\<And>e. r \<noteq> Thrown e"
    by (metis fst_conv)
  with so assms show ?thesis
    by (cases r) (auto simp: authenticate_def)
qed

lemma authenticate_Resolved:
  assumes "authenticate env svc w system u p = (Resolved obj, svc', w')"
  shows "\<exists>c client w1. ldapConfig system = Some c
           \<and> connect env w (Some c) u p = (Resolved client, w1)
           \<and> searchObject env svc w1 (Some c) (to_string u)
                \<lparr>opt_filter = None, opt_scope = ''sub'', opt_attributes = []\<rparr>
              = (Resolved obj, svc', w')"
proof -
  from assms obtain client w1 where
    con: "connect env w (ldapConfig system) u p = (Resolved client, w1)"
    by (auto simp: authenticate_def Let_def split: prod.splits outcome.splits)
  from connect_Resolved [OF con] obtain c where c: "ldapConfig system = Some c" by auto
  from authenticate_bind_ok [of env w c u p client w1 system svc] con c assms
  show ?thesis by auto
qed

lemma cache_wf_empty: "cache_wf \<lparr>clients = Map.empty\<rparr> w"
  by (simp add: cache_wf_def)

lemma connect_executor_created:
  "length (created w) \<le> length (created (snd (connect_executor env w config name cred)))"
  by (auto simp: connect_executor_def Let_def world_defs split: option.splits bind_reply.splits)

lemma connect_created:
  "length (created w) \<le> length (created (snd (connect env w config u p)))"
  by (auto simp: connect_def connect_executor_created split: sum.splits)

lemma cache_wf_mono:
  "cache_wf svc w \<Longrightarrow> length (created w) \<le> length (created w') \<Longrightarrow> cache_wf svc w'"
  by (fastforce simp: cache_wf_def)

lemma cache_wf_addClient:
  "cache_wf svc w \<Longrightarrow> client < length (created w) \<Longrightarrow> cache_wf (addClient svc c client) w"
  by (auto simp: cache_wf_def addClient_def ran_def split: if_splits)

lemma cache_wf_getClient:
  assumes "cache_wf svc w" and "getClient env svc w config = (r, svc', w')"
  shows "cache_wf svc' w'"
proof (cases r)
  case (Resolved client)
  with assms(2) getClient_Resolved [of env svc w config client svc' w']
  obtain c where c: "config = Some c"
    and alt: "svc' = svc \<and> w' = w
              \<or> connect env w config None None = (Resolved client, w')
                \<and> svc' = addClient svc c client"
    by auto
  from alt show ?thesis
  proof
    assume "svc' = svc \<and> w' = w"
    with assms(1) show ?thesis by simp
  next
    assume new: "connect env w config None None = (Resolved client, w')
                   \<and> svc' = addClient svc c client"
    with connect_Resolved [of env w config None None client w']
    have "client = length (created w)" and "length (created w') = Suc (length (created w))"
      by (auto simp: world_defs)
    with assms(1) new show ?thesis
      by (simp add: cache_wf_addClient cache_wf_mono)
  qed
next
  case Pending
  with assms(2) have "svc' = svc" and "w' = snd (connect env w config None None) \<or> w' = w"
    by (auto simp: getClient_def split: option.splits if_splits prod.splits outcome.splits)
  with assms(1) connect_created [of w env config None None] show ?thesis
    by (auto intro: cache_wf_mono)
next
  case (Rejected e)
  with assms(2) have "svc' = svc" and "w' = snd (connect env w config None None) \<or> w' = w"
    by (auto simp: getClient_def split: option.splits if_splits prod.splits outcome.splits)
  with assms(1) connect_created [of w env config None None] show ?thesis
    by (auto intro: cache_wf_mono)
next
  case (Thrown e)
  with assms(2) have "svc' = svc" and "w' = snd (connect env w config None None) \<or> w' = w"
    by (auto simp: getClient_def split: option.splits if_splits prod.splits outcome.splits)
  with assms(1) connect_created [of w env config None None] show ?thesis
    by (auto intro: cache_wf_mono)
qed

section \<open>Properties of the service\<close>

lemma foldl_on_event_entries:
  "foldl on_event (acc, p) (map SearchEntry objs) = (acc @ objs, p)"
  by (induction objs arbitrary: acc) simp_all

lemma search_promise_entries_end:
  "search_promise (SearchRes (map SearchEntry objs @ [End status])) =
     (if status = 0 then Resolved objs else Rejected (Msg ''LDAP result code != 0''))"
  by (simp add: search_promise_def foldl_on_event_entries)

text \<open>
  C1. When \<^verbatim>\<open>searchCollection\<close> has obtained a client and the response emits the
  searchEntry events of \<open>objs\<close> and then \<^verbatim>\<open>end\<close>, the promise is resolved with exactly
  \<open>objs\<close>, in emission order, if the end status is 0; otherwise it is rejected with
  \<^verbatim>\<open>'LDAP result code != 0'\<close>, whatever entries were emitted before.
\<close>

theorem searchCollection_entries_then_end:
  assumes "getClient env svc w config = (Resolved client, svc', w')"
    and "search_reply_of env w'
           \<lparr>search_client = client, search_base = searchString, search_opts = options\<rparr>
         = SearchRes (map SearchEntry objs @ [End status])"
  shows "fst (searchCollection env svc w config searchString options) =
           (if status = 0 then Resolved objs else Rejected (Msg ''LDAP result code != 0''))"
  using assms by (simp add: searchCollection_def search_promise_entries_end)


theorem searchCollection_entries_then_end_witness:
  "getClient env_ok no_clients world0 (Some s1_config) = (Resolved 0, s1_cached, s1_world)
   \<and> search_reply_of env_ok s1_world
        \<lparr>search_client = 0, search_base = ''dc=school'', search_opts = sub_options\<rparr>
      = SearchRes (map SearchEntry three_entries @ [End 0])
   \<and> fst (searchCollection env_ok no_clients world0 (Some s1_config) ''dc=school'' sub_options)
      = Resolved three_entries"
proof -
  have g: "getClient env_ok no_clients world0 (Some s1_config) = (Resolved 0, s1_cached, s1_world)"
    by (simp add: getClient_def connect_def connect_executor_def username_or_default_def
        password_or_default_def default_username_def addClient_def world_defs sample_defs)
  have r: "search_reply_of env_ok s1_world
        \<lparr>search_client = 0, search_base = ''dc=school'', search_opts = sub_options\<rparr>
      = SearchRes (map SearchEntry three_entries @ [End 0])"
    by (simp add: env_ok_def reply_three_def)
  from searchCollection_entries_then_end [OF g r] g r show ?thesis by simp
qed

text \<open>
  C3. When no client is cached for a configuration and \<^verbatim>\<open>_getClient\<close> resolves with a
  client that still reports connected, a second call resolves with the same client,
  which is the cached one, and changes neither the registry nor the world: no client is
  created and no bind is sent. The first call sent exactly one bind.
\<close>

theorem getClient_twice_same_handle:
  assumes "clients svc (to_string (cfg_id c)) = None"
    and "getClient env svc w (Some c) = (Resolved client, svc1, w1)"
    and "connected env w1 client"
  shows "getClient env svc1 w1 (Some c) = (Resolved client, svc1, w1)
         \<and> clients svc1 (to_string (cfg_id c)) = Some client
         \<and> binds w1 = binds w @ [\<lparr>bind_client = client, bind_name = default_username c,
                                   bind_credentials = searchUserPassword c\<rparr>]"
proof -
  from getClient_Resolved [OF assms(2)] assms(1)
  have con: "connect env w (Some c) None None = (Resolved client, w1)"
    and svc1: "svc1 = addClient svc c client"
    by auto
  from svc1 have cached: "clients svc1 (to_string (cfg_id c)) = Some client"
    by (simp add: addClient_def)
  from connect_Resolved [OF con]
  have "binds w1 = binds w @ [\<lparr>bind_client = client, bind_name = default_username c,
                                bind_credentials = searchUserPassword c\<rparr>]"
    by (auto simp: world_defs username_or_default_def password_or_default_def)
  with cached getClient_cached [OF cached assms(3)] show ?thesis by simp
qed

theorem getClient_twice_same_handle_witness:
  "clients no_clients (to_string (cfg_id s1_config)) = None
   \<and> getClient env_ok no_clients world0 (Some s1_config) = (Resolved 0, s1_cached, s1_world)
   \<and> connected env_ok s1_world 0
   \<and> getClient env_ok s1_cached s1_world (Some s1_config) = (Resolved 0, s1_cached, s1_world)"
proof -
  have a: "clients no_clients (to_string (cfg_id s1_config)) = None"
    by (simp add: no_clients_def)
  have g: "getClient env_ok no_clients world0 (Some s1_config) = (Resolved 0, s1_cached, s1_world)"
    by (simp add: getClient_def connect_def connect_executor_def username_or_default_def
        password_or_default_def default_username_def addClient_def world_defs sample_defs)
  have c: "connected env_ok s1_world 0"
    by (simp add: env_ok_def)
  from getClient_twice_same_handle [OF a g c] a g c show ?thesis by simp
qed

text \<open>
  C6. When \<^verbatim>\<open>searchCollection\<close> resolves with a sequence of objects, \<^verbatim>\<open>searchObject\<close>
  resolves with its first element if there is one, and is rejected with
  \<^verbatim>\<open>'Object not found'\<close> if the sequence is empty.
\<close>

theorem searchObject_first_or_not_found:
  assumes "searchCollection env svc w config searchString options = (Resolved objs, svc', w')"
  shows "searchObject env svc w config searchString options =
           (if objs \<noteq> [] then Resolved (hd objs) else Rejected (Msg ''Object not found''),
            svc', w')"
  using assms by (simp add: searchObject_def hd_conv_nth)

theorem searchObject_first_or_not_found_witness:
  "searchCollection env_ok no_clients world0 (Some s1_config) ''dc=school'' sub_options =
     (Resolved three_entries, s1_cached,
      record_search s1_world
        \<lparr>search_client = 0, search_base = ''dc=school'', search_opts = sub_options\<rparr>)
   \<and> fst (searchObject env_ok no_clients world0 (Some s1_config) ''dc=school'' sub_options) =
       Resolved [(''uid'', ''a'')]"
proof -
  have g: "getClient env_ok no_clients world0 (Some s1_config) = (Resolved 0, s1_cached, s1_world)"
    by (simp add: getClient_def connect_def connect_executor_def username_or_default_def
        password_or_default_def default_username_def addClient_def world_defs sample_defs)
  have sc: "searchCollection env_ok no_clients world0 (Some s1_config) ''dc=school'' sub_options =
     (Resolved three_entries, s1_cached,
      record_search s1_world
        \<lparr>search_client = 0, search_base = ''dc=school'', search_opts = sub_options\<rparr>)"
    unfolding searchCollection_def g
    by (simp add: search_promise_entries_end env_ok_def reply_three_def)
  from searchObject_first_or_not_found [OF sc] sc show ?thesis
    by (simp add: three_entries_def)
qed

text \<open>
  C7. When \<^verbatim>\<open>_connect\<close> is called without a username and without a password (absent or
  empty) and \<^verbatim>\<open>ldap.createClient\<close> returns a client, the one bind it sends is for
  \<^verbatim>\<open>uid=<searchUser>,cn=users,<rootPath>\<close> with the configured password; so does
  \<^verbatim>\<open>_getClient\<close> when the registry holds no connected client for the configuration.
\<close>

theorem connect_default_credentials:
  assumes "\<not> truthy username" and "\<not> truthy password"
    and "createClient env w (url c) = None"
  shows "binds (snd (connect env w (Some c) username password)) =
           binds w @ [\<lparr>bind_client = length (created w),
                       bind_name = ''uid='' @ to_string (searchUser c) @ '',cn=users,''
                                     @ to_string (rootPath c),
                       bind_credentials = searchUserPassword c\<rparr>]
         \<and> ((\<forall>client. clients svc (to_string (cfg_id c)) = Some client
                 \<longrightarrow> \<not> connected env w client) \<longrightarrow>
            binds (snd (snd (getClient env svc w (Some c)))) =
              binds w @ [\<lparr>bind_client = length (created w),
                          bind_name = ''uid='' @ to_string (searchUser c) @ '',cn=users,''
                                        @ to_string (rootPath c),
                          bind_credentials = searchUserPassword c\<rparr>])"
proof -
  have d: "binds (snd (connect env w (Some c) username password)) =
           binds w @ [\<lparr>bind_client = length (created w), bind_name = default_username c,
                       bind_credentials = searchUserPassword c\<rparr>]"
    using assms by (simp add: connect_defaults connect_executor_binds)
  have n: "binds (snd (connect env w (Some c) None None)) =
           binds w @ [\<lparr>bind_client = length (created w), bind_name = default_username c,
                       bind_credentials = searchUserPassword c\<rparr>]"
    using assms(3) by (simp add: connect_defaults connect_executor_binds)
  have "binds (snd (snd (getClient env svc w (Some c)))) =
          binds (snd (connect env w (Some c) None None))"
    if "\<forall>client. clients svc (to_string (cfg_id c)) = Some client \<longrightarrow> \<not> connected env w client"
    using that by (simp add: getClient_connects split: prod.splits outcome.splits)
  with d n show ?thesis by (simp add: default_username_def)
qed

theorem connect_default_credentials_witness:
  "\<not> truthy None \<and> createClient env_ok world0 (url s1_config) = None
   \<and> binds (snd (connect env_ok world0 (Some s1_config) None None)) =
       [\<lparr>bind_client = 0, bind_name = ''uid=admin,cn=users,dc=school'',
         bind_credentials = Some ''p''\<rparr>]
   \<and> clients no_clients (to_string (cfg_id s1_config)) = None
   \<and> binds (snd (snd (getClient env_ok no_clients world0 (Some s1_config)))) =
       [\<lparr>bind_client = 0, bind_name = ''uid=admin,cn=users,dc=school'',
         bind_credentials = Some ''p''\<rparr>]"
proof -
  have t: "\<not> truthy None" by simp
  have cr: "createClient env_ok world0 (url s1_config) = None"
    by (simp add: env_ok_def)
  have nc: "\<forall>client. clients no_clients (to_string (cfg_id s1_config)) = Some client
          \<longrightarrow> \<not> connected env_ok world0 client"
    by (simp add: no_clients_def)
  have e: "clients no_clients (to_string (cfg_id s1_config)) = None"
    by (simp add: no_clients_def)
  from connect_default_credentials [OF t t cr, of no_clients] t cr nc e show ?thesis
    by (simp add: s1_config_def world0_def)
qed

text \<open>
  C9. \<^verbatim>\<open>addUserToTeam\<close> and \<^verbatim>\<open>removeUserFromTeam\<close> hand the strategy the user and a
  group whose name is \<^verbatim>\<open>schulcloud-\<close> followed by the team's id and whose description is
  the team's name; the group's name does not depend on the team's name.
\<close>

theorem team_group_name:
  "addUserToTeam getLDAPStrategy config user t =
     addUserToGroup (getLDAPStrategy config) user
       \<lparr>group_name = ''schulcloud-'' @ to_string (team_id t), group_description = team_name t\<rparr>
   \<and> removeUserFromTeam getLDAPStrategy config user t =
       removeUserFromGroup (getLDAPStrategy config) user
         \<lparr>group_name = ''schulcloud-'' @ to_string (team_id t), group_description = team_name t\<rparr>
   \<and> group_name (teamToGroup (t\<lparr>team_name := n\<rparr>)) = group_name (teamToGroup t)"
  by (simp add: addUserToTeam_def removeUserFromTeam_def teamToGroup_def)

lemma authenticate_registry:
  "fst (snd (authenticate env svc w system u p)) = svc
   \<or> (\<exists>w1. fst (snd (authenticate env svc w system u p)) =
              fst (snd (getClient env svc w1 (ldapConfig system))))"
proof (cases "connect env w (ldapConfig system) u p")
  case (Pair r w1)
  show ?thesis
  proof (cases r)
    case (Resolved client)
    have "fst (snd (authenticate env svc w system u p)) =
            fst (snd (searchObject env svc w1 (ldapConfig system) (to_string u)
              \<lparr>opt_filter = None, opt_scope = ''sub'', opt_attributes = []\<rparr>))"
      using Pair Resolved
      by (auto simp: authenticate_def Let_def split: prod.splits outcome.splits)
    then show ?thesis
      by (metis searchObject_registry)
  qed (use Pair in \<open>simp_all add: authenticate_def\<close>)
qed

lemma disconnect_registry:
  "fst (snd (disconnect env svc w config)) = fst (snd (getClient env svc w config))"
  by (auto simp: disconnect_def Let_def split: prod.splits outcome.splits)

text \<open>
  C8. The registry is a dictionary, so it holds one client for a key; \<^verbatim>\<open>_addClient\<close>
  stores the new client under the configuration's key in place of whatever was there and
  leaves every other key alone; and every method of the service leaves the registry as
  it was or stores one client under the key of its configuration.
\<close>

theorem registry_one_client_per_id:
  "clients (addClient svc c client) = (clients svc)(to_string (cfg_id c) \<mapsto> client)
   \<and> registry_step svc config (fst (snd (getClient env svc w config)))
   \<and> registry_step svc config (fst (snd (searchCollection env svc w config s opts)))
   \<and> registry_step svc config (fst (snd (searchObject env svc w config s opts)))
   \<and> registry_step svc (ldapConfig system) (fst (snd (authenticate env svc w system u p)))
   \<and> registry_step svc config (fst (snd (disconnect env svc w config)))
   \<and> registry_step svc config (fst (snd (getSchools getLDAPStrategy env svc w config)))
   \<and> registry_step svc config (fst (snd (getUsers getLDAPStrategy env svc w config school)))
   \<and> registry_step svc config (fst (snd (getClasses getLDAPStrategy env svc w config school)))"
proof -
  have "registry_step svc (ldapConfig system) (fst (snd (authenticate env svc w system u p)))"
    using authenticate_registry [of env svc w system u p]
    by (auto simp: getClient_registry_step) (simp add: registry_step_def)
  then show ?thesis
    by (simp add: addClient_def getClient_registry_step searchCollection_registry
        searchObject_registry disconnect_registry getSchools_def getUsers_def getClasses_def
        split: prod.splits)
qed


lemma cache_wf_searchCollection:
  assumes "cache_wf svc w" and "searchCollection env svc w config s opts = (r, svc', w')"
  shows "cache_wf svc' w'"
proof -
  obtain r0 w0 where g: "getClient env svc w config = (r0, svc', w0)"
    and len: "length (created w') = length (created w0)"
    using assms(2)
    by (auto simp: searchCollection_def Let_def world_defs split: prod.splits outcome.splits)
  from cache_wf_getClient [OF assms(1) g] len show ?thesis
    by (simp add: cache_wf_def)
qed

lemma cache_wf_searchObject:
  assumes "cache_wf svc w" and "searchObject env svc w config s opts = (r, svc', w')"
  shows "cache_wf svc' w'"
proof -
  obtain r0 where "searchCollection env svc w config s opts = (r0, svc', w')"
    using assms(2) by (auto simp: searchObject_def split: prod.splits outcome.splits)
  with assms(1) show ?thesis by (rule cache_wf_searchCollection)
qed

lemma cache_wf_authenticate:
  assumes "cache_wf svc w" and "authenticate env svc w system u p = (r, svc', w')"
  shows "cache_wf svc' w'"
proof (cases "connect env w (ldapConfig system) u p")
  case (Pair r0 w1)
  from connect_created [of w env "ldapConfig system" u p] Pair assms(1)
  have wf1: "cache_wf svc w1"
    by (auto intro: cache_wf_mono)
  show ?thesis
  proof (cases r0)
    case (Resolved client)
    with Pair assms(2) obtain r1 where
      "searchObject env svc w1 (ldapConfig system) (to_string u)
         \<lparr>opt_filter = None, opt_scope = ''sub'', opt_attributes = []\<rparr> = (r1, svc', w')"
      by (auto simp: authenticate_def Let_def split: prod.splits outcome.splits)
    with wf1 show ?thesis by (rule cache_wf_searchObject)
  qed (use Pair assms(2) wf1 in \<open>auto simp: authenticate_def\<close>)
qed

lemma cache_wf_disconnect:
  assumes "cache_wf svc w" and "disconnect env svc w config = (r, svc', w')"
  shows "cache_wf svc' w'"
proof -
  obtain r0 where "getClient env svc w config = (r0, svc', w')"
    using assms(2) by (auto simp: disconnect_def Let_def split: prod.splits outcome.splits)
  with assms(1) show ?thesis by (rule cache_wf_getClient)
qed

lemma getClient_s1_first:
  "getClient env_ok no_clients world0 (Some s1_config) = (Resolved 0, s1_cached, s1_world)"
  by (simp add: getClient_def connect_def connect_executor_def username_or_default_def
      password_or_default_def default_username_def addClient_def world_defs sample_defs)

lemma authenticate_bob:
  "authenticate env_ok no_clients world0 s1_system (Some bob) (Some ''secret'') =
     (Resolved [(''uid'', ''a'')], bob_cached, bob_world)"
  by (simp add: authenticate_def searchObject_def searchCollection_def search_promise_def
      getClient_def connect_def connect_executor_def username_or_default_def
      password_or_default_def default_username_def addClient_def world_defs sample_defs)

text \<open>
  C10. When \<^verbatim>\<open>authenticate\<close> resolves, its search was sent on the client that
  \<^verbatim>\<open>_getClient\<close> returned: a client that was already in the registry, or one created
  after the dedicated client and bound with the service account's default name and
  password. That client is in the registry under the configuration's key afterwards, and
  it is not the client of the dedicated bind, on which no search is sent.
\<close>

theorem authenticate_searches_through_registry:
  assumes "authenticate env svc w system username password = (Resolved obj, svc', w')"
    and "cache_wf svc w"
  shows "\<exists>c client name cred.
           ldapConfig system = Some c
         \<and> username_or_default (Some c) username = Inr name
         \<and> password_or_default (Some c) password = Inr cred
         \<and> clients svc' (to_string (cfg_id c)) = Some client
         \<and> client \<noteq> length (created w)
         \<and> searches w' = searches w @
               [\<lparr>search_client = client, search_base = to_string username,
                 search_opts = \<lparr>opt_filter = None, opt_scope = ''sub'', opt_attributes = []\<rparr>\<rparr>]
         \<and> (clients svc (to_string (cfg_id c)) = Some client \<and> svc' = svc
              \<and> binds w' = binds w @
                    [\<lparr>bind_client = length (created w), bind_name = name,
                      bind_credentials = cred\<rparr>]
            \<or> client = Suc (length (created w)) \<and> svc' = addClient svc c client
              \<and> binds w' = binds w @
                    [\<lparr>bind_client = length (created w), bind_name = name,
                      bind_credentials = cred\<rparr>,
                     \<lparr>bind_client = client, bind_name = default_username c,
                      bind_credentials = searchUserPassword c\<rparr>])"
proof -
  let ?opts = "\<lparr>opt_filter = None, opt_scope = ''sub'', opt_attributes = []\<rparr>"
  from authenticate_Resolved [OF assms(1)] obtain c d w1 where
    c: "ldapConfig system = Some c"
    and con: "connect env w (Some c) username password = (Resolved d, w1)"
    and so: "searchObject env svc w1 (Some c) (to_string username) ?opts = (Resolved obj, svc', w')"
    by blast
  from connect_Resolved [OF con] obtain name cred where
    name: "username_or_default (Some c) username = Inr name"
    and cred: "password_or_default (Some c) password = Inr cred"
    and w1: "w1 = record_bind (record_create w (url c))
                    \<lparr>bind_client = length (created w), bind_name = name, bind_credentials = cred\<rparr>"
    by auto
  from searchObject_Resolved [OF so] obtain objs where
    sc: "searchCollection env svc w1 (Some c) (to_string username) ?opts = (Resolved objs, svc', w')"
    by blast
  from searchCollection_Resolved [OF sc] obtain client w2 where
    gc: "getClient env svc w1 (Some c) = (Resolved client, svc', w2)"
    and w': "w' = record_search w2
               \<lparr>search_client = client, search_base = to_string username, search_opts = ?opts\<rparr>"
    by blast
  from getClient_Resolved [OF gc]
  consider (cached) "clients svc (to_string (cfg_id c)) = Some client" "svc' = svc" "w2 = w1"
    | (fresh) "connect env w1 (Some c) None None = (Resolved client, w2)"
        "svc' = addClient svc c client"
    by auto
  then show ?thesis
  proof cases
    case cached
    from cached(1) have "client \<in> ran (clients svc)"
      by (auto simp: ran_def)
    with assms(2) have "client < length (created w)"
      by (simp add: cache_wf_def)
    with c name cred cached w1 w' show ?thesis
      by (auto simp: world_defs)
  next
    case fresh
    from connect_Resolved [OF fresh(1)]
    have cl: "client = length (created w1)"
      and w2: "w2 = record_bind (record_create w1 (url c))
                  \<lparr>bind_client = length (created w1), bind_name = default_username c,
                    bind_credentials = searchUserPassword c\<rparr>"
      by (auto simp: username_or_default_def password_or_default_def)
    from cl w1 have cl': "client = Suc (length (created w))"
      by (simp add: world_defs)
    from fresh(2) have "clients svc' (to_string (cfg_id c)) = Some client"
      by (simp add: addClient_def)
    with c name cred fresh(2) cl' w1 w2 w' show ?thesis
      by (auto simp: world_defs)
  qed
qed

theorem authenticate_searches_through_registry_witness:
  "authenticate env_ok no_clients world0 s1_system (Some bob) (Some ''secret'') =
     (Resolved [(''uid'', ''a'')], bob_cached, bob_world)
   \<and> cache_wf no_clients world0
   \<and> clients bob_cached ''s1'' = Some 1
   \<and> map search_client (searches bob_world) = [1]
   \<and> map bind_client (binds bob_world) = [0, 1]
   \<and> (\<exists>c client name cred.
           ldapConfig s1_system = Some c
         \<and> username_or_default (Some c) (Some bob) = Inr name
         \<and> password_or_default (Some c) (Some ''secret'') = Inr cred
         \<and> clients bob_cached (to_string (cfg_id c)) = Some client
         \<and> client \<noteq> length (created world0)
         \<and> searches bob_world = searches world0 @
               [\<lparr>search_client = client, search_base = to_string (Some bob),
                 search_opts = \<lparr>opt_filter = None, opt_scope = ''sub'', opt_attributes = []\<rparr>\<rparr>]
         \<and> (clients no_clients (to_string (cfg_id c)) = Some client \<and> bob_cached = no_clients
              \<and> binds bob_world = binds world0 @
                    [\<lparr>bind_client = length (created world0), bind_name = name,
                      bind_credentials = cred\<rparr>]
            \<or> client = Suc (length (created world0)) \<and> bob_cached = addClient no_clients c client
              \<and> binds bob_world = binds world0 @
                    [\<lparr>bind_client = length (created world0), bind_name = name,
                      bind_credentials = cred\<rparr>,
                     \<lparr>bind_client = client, bind_name = default_username c,
                      bind_credentials = searchUserPassword c\<rparr>]))"
proof -
  have wf: "cache_wf no_clients world0"
    by (simp add: no_clients_def cache_wf_def)
  have facts: "clients bob_cached ''s1'' = Some 1
      \<and> map search_client (searches bob_world) = [1]
      \<and> map bind_client (binds bob_world) = [0, 1]"
    by (simp add: sample_defs)
  from authenticate_searches_through_registry [OF authenticate_bob wf] authenticate_bob wf facts
  show ?thesis by blast
qed





section \<open>Missing configurations and disconnecting\<close>

lemma connect_no_url:
  assumes "\<not> truthy (url c)"
  shows "fst (connect env w (Some c) u p) = Rejected (Msg ''Invalid URL in config object.'')"
  using assms
  by (auto simp: connect_def connect_executor_def username_or_default_def
      password_or_default_def Let_def split: option.splits bind_reply.splits)

lemma connect_missing_config_with_credentials:
  assumes "truthy u" and "truthy p"
  shows "connect env w None u p = (Rejected (Msg ''Invalid URL in config object.''), w)"
  using assms
  by (simp add: connect_def connect_executor_def username_or_default_def
      password_or_default_def)

lemma getClient_no_url:
  assumes "\<not> truthy (url c)"
    and "\<forall>client. clients svc (to_string (cfg_id c)) = Some client \<longrightarrow> \<not> connected env w client"
  shows "fst (getClient env svc w (Some c)) = Rejected (Msg ''Invalid URL in config object.'')"
  using connect_no_url [OF assms(1), of env w None None] assms(2)
  by (auto simp: getClient_connects split: prod.splits outcome.splits)

lemma getClient_bind_rejected:
  assumes "truthy (url c)" and "createClient env w (url c) = None"
    and "bind_reply_of env (record_create w (url c))
           \<lparr>bind_client = length (created w), bind_name = default_username c,
             bind_credentials = searchUserPassword c\<rparr> = BindErr e"
    and "\<forall>client. clients svc (to_string (cfg_id c)) = Some client \<longrightarrow> \<not> connected env w client"
  shows "fst (getClient env svc w (Some c)) = Rejected (NotAuthenticated ''Wrong credentials'')"
  using assms
  by (simp add: getClient_connects connect_defaults connect_executor_def Let_def)

text \<open>
  C4 at a missing configuration: \<^verbatim>\<open>_getClient\<close> reads \<^verbatim>\<open>config._id\<close>, and \<^verbatim>\<open>_connect\<close>
  without credentials reads \<^verbatim>\<open>config.searchUser\<close>, before the guard of the executor is
  reached. Both throw a \<^verbatim>\<open>TypeError\<close> and return no promise, so nothing is rejected with
  \<^verbatim>\<open>'Invalid URL in config object.'\<close>.
\<close>

theorem getClient_missing_config_throws:
  "getClient env svc w None = (Thrown TypeError, svc, w)
   \<and> connect env w None None None = (Thrown TypeError, w)"
  by (simp add: getClient_def connect_def username_or_default_def)

lemma disconnect_with_id:
  assumes "truthy (cfg_id c)"
  shows "fst (disconnect env svc w (Some c)) = Rejected TypeError"
proof -
  obtain r svc' w' where g: "getClient env svc w (Some c) = (r, svc', w')"
    by (metis prod_cases3)
  with getClient_Some_not_Thrown [of env svc w c] have "\<And>e. r \<noteq> Thrown e"
    by (metis fst_conv)
  with g assms show ?thesis
    by (cases r) (auto simp: disconnect_def)
qed

lemma disconnect_without_id:
  assumes "\<not> truthy (cfg_id c)"
  shows "fst (disconnect env svc w (Some c)) = Rejected (Msg ''Invalid config object'')"
  using assms
  by (auto simp: disconnect_def Let_def split: prod.splits outcome.splits)

lemma disconnect_missing_config:
  "disconnect env svc w None = (Rejected (Msg ''Invalid config object''), svc, w)"
  by (simp add: disconnect_def getClient_def)

text \<open>
  C5 at a configuration with an id and a cached, connected client: \<^verbatim>\<open>_getClient\<close>
  returns a promise, \<^verbatim>\<open>unbind\<close> is not a method of a promise, and the promise of
  \<^verbatim>\<open>_disconnect\<close> is rejected with the \<^verbatim>\<open>TypeError\<close>. The client stays in the registry
  and nothing is sent on it.
\<close>

theorem disconnect_cached_rejects:
  "disconnect env_ok s1_cached s1_world (Some s1_config) =
     (Rejected TypeError, s1_cached, s1_world)"
  by (simp add: disconnect_def getClient_def sample_defs)

end
